theory Spec2Isabelle
  imports Complex_Main "HOL-Library.Word"
begin

section \<open>Double-precision values\<close>

text \<open>
  The trainer computes on C++ \<open>double\<close>s. They are modelled as real numbers extended by
  the three special values of IEEE 754 arithmetic, so that a division by zero, which the
  C++ code neither checks nor traps, is a value of the model and not a hidden default (in
  HOL, \<open>x / 0 = 0\<close> on the reals).

  The model does not round: on finite operands an operation returns the exact real
  result, where the machine returns the nearest double, or an infinity on overflow, and
  the sign of a zero is not kept. The two agree wherever the exact result is itself a
  double. For that reason no law of real arithmetic is used on finite values below: the
  general theorems state the expression the code evaluates, operation by operation, and
  a call is evaluated only at inputs where every intermediate result is zero or a dyadic
  number of a few bits, so that the machine's operations are exact there.
\<close>

datatype dbl = Fin real | PInf | MInf | NaN

instantiation dbl :: "{zero,one,plus,uminus,minus,times,inverse,ord}"
begin

definition zero_dbl :: dbl where
  "zero_dbl = Fin 0"

definition one_dbl :: dbl where
  "one_dbl = Fin 1"

fun plus_dbl :: "dbl \<Rightarrow> dbl \<Rightarrow> dbl" where
  "plus_dbl (Fin a) (Fin b) = Fin (a + b)"
| "plus_dbl NaN y = NaN"
| "plus_dbl x NaN = NaN"
| "plus_dbl PInf MInf = NaN"
| "plus_dbl MInf PInf = NaN"
| "plus_dbl PInf y = PInf"
| "plus_dbl MInf y = MInf"
| "plus_dbl (Fin a) y = y"

fun uminus_dbl :: "dbl \<Rightarrow> dbl" where
  "uminus_dbl (Fin a) = Fin (- a)"
| "uminus_dbl PInf = MInf"
| "uminus_dbl MInf = PInf"
| "uminus_dbl NaN = NaN"

definition minus_dbl :: "dbl \<Rightarrow> dbl \<Rightarrow> dbl" where
  "minus_dbl x y = x + (- y)"

fun times_dbl :: "dbl \<Rightarrow> dbl \<Rightarrow> dbl" where
  "times_dbl (Fin a) (Fin b) = Fin (a * b)"
| "times_dbl NaN y = NaN"
| "times_dbl x NaN = NaN"
| "times_dbl (Fin a) y = (if a = 0 then NaN else if 0 < a then y else - y)"
| "times_dbl x (Fin b) = (if b = 0 then NaN else if 0 < b then x else - x)"
| "times_dbl PInf y = y"
| "times_dbl MInf y = - y"

fun divide_dbl :: "dbl \<Rightarrow> dbl \<Rightarrow> dbl" where
  "divide_dbl (Fin a) (Fin b) =
     (if b \<noteq> 0 then Fin (a / b)
      else if 0 < a then PInf else if a < 0 then MInf else NaN)"
| "divide_dbl NaN y = NaN"
| "divide_dbl x NaN = NaN"
| "divide_dbl (Fin a) y = Fin 0"
| "divide_dbl x (Fin b) = (if 0 \<le> b then x else - x)"
| "divide_dbl x y = NaN"

definition inverse_dbl :: "dbl \<Rightarrow> dbl" where
  "inverse_dbl x = divide (Fin 1) x"

fun less_dbl :: "dbl \<Rightarrow> dbl \<Rightarrow> bool" where
  "less_dbl (Fin a) (Fin b) = (a < b)"
| "less_dbl NaN y = False"
| "less_dbl x NaN = False"
| "less_dbl x MInf = False"
| "less_dbl PInf y = False"
| "less_dbl x y = True"

definition less_eq_dbl :: "dbl \<Rightarrow> dbl \<Rightarrow> bool" where
  "less_eq_dbl x y = (x < y \<or> (x = y \<and> x \<noteq> NaN))"

instance ..

end

text \<open>\<open>blitz::pow2\<close>: the square.\<close>

definition pow2 :: "dbl \<Rightarrow> dbl" where
  "pow2 x = x * x"

text \<open>\<open>blitz::sum\<close> over a one-dimensional array: accumulation from zero in index order.\<close>

definition sum_dbl :: "dbl list \<Rightarrow> dbl" where
  "sum_dbl xs = foldl (+) 0 xs"

text \<open>
  The conversion \<open>(int32_t)\<close> that \<open>mStep\<close> applies to the sample count of the
  statistics. The count is an unsigned quantity, taken here as a natural number; the
  conversion keeps its low 32 bits and reads them as a signed integer.
\<close>

definition int32_t :: "nat \<Rightarrow> int" where
  "int32_t c = sint (word_of_nat c :: 32 word)"

section \<open>Machines, statistics and the trainer\<close>

text \<open>
  A Gaussian mixture machine: \<open>n_gaussians\<close> components over \<open>n_inputs\<close> dimensions,
  with one weight per component and one mean and one diagonal variance per component and
  dimension.
\<close>

record GMMMachine =
  n_gaussians :: nat
  n_inputs :: nat
  weights :: "dbl list"
  means :: "dbl list list"
  variances :: "dbl list list"

text \<open>
  Modelled from the spec: the accessors of the machine, which the trainer calls and whose
  code lies outside the trainer's source file. The spec has the trainer read the prior's
  weights, means and variances and commit the new ones to the model; the getters are the
  record's fields and the setters are plain stores.
\<close>

definition setWeights :: "GMMMachine \<Rightarrow> dbl list \<Rightarrow> GMMMachine" where
  "setWeights g w = g\<lparr>weights := w\<rparr>"

definition setMeans :: "GMMMachine \<Rightarrow> dbl list list \<Rightarrow> GMMMachine" where
  "setMeans g m = g\<lparr>means := m\<rparr>"

definition setVariances :: "GMMMachine \<Rightarrow> dbl list list \<Rightarrow> GMMMachine" where
  "setVariances g v = g\<lparr>variances := v\<rparr>"

text \<open>
  The sufficient statistics: the number of samples \<open>T\<close>, the occupancy \<open>n\<close> of each
  component and the first and second moments.
\<close>

record GMMStats =
  ss_T :: nat
  ss_n :: "dbl list"
  ss_sumPx :: "dbl list list"
  ss_sumPxx :: "dbl list list"

text \<open>
  Modelled from the spec: resizing the statistics, whose code lies outside the trainer's
  source file. The spec says that resizing to \<open>(K, D)\<close> zeroes all contents.
\<close>

definition ss_resize :: "nat \<Rightarrow> nat \<Rightarrow> GMMStats" where
  "ss_resize K D =
     \<lparr>ss_T = 0, ss_n = replicate K 0,
      ss_sumPx = replicate K (replicate D 0), ss_sumPxx = replicate K (replicate D 0)\<rparr>"

text \<open>
  Machines live in a store and are named by their address: the trainer keeps a pointer
  to a prior it does not own, and \<open>mStep\<close> updates in place the machine it is given by
  reference. A pointer is an optional address, \<open>None\<close> being \<open>NULL\<close>.
\<close>

type_synonym addr = nat
type_synonym store = "addr \<Rightarrow> GMMMachine"
type_synonym Arrayset = "dbl list list"

text \<open>
  The trainer: the options and statistics it inherits from the plain trainer, its own
  fields, and the arrays it keeps from one call to the next.
\<close>

record MAP_GMMTrainer =
  update_means :: bool
  update_variances :: bool
  update_weights :: bool
  m_mean_var_update_responsibilities_threshold :: dbl
  m_ss :: GMMStats
  relevance_factor :: dbl
  m_prior_gmm :: "addr option"
  m_T3_alpha :: dbl
  m_T3_adaptation :: bool
  m_cache_alpha :: "dbl list"
  m_cache_ml_weights :: "dbl list"
  m_cache_new_weights :: "dbl list"
  m_cache_ml_means :: "dbl list list"
  m_cache_prior_means :: "dbl list list"
  m_cache_new_means :: "dbl list list"
  m_cache_prior_variances :: "dbl list list"
  m_cache_Exx :: "dbl list list"
  m_cache_means :: "dbl list list"

text \<open>
  How a call ends: normally, by throwing \<open>NoPriorGMM\<close>, or by dereferencing a null
  pointer (undefined behaviour in C++, kept apart from every exception).
\<close>

datatype outcome = Returned | NoPriorGMM | NullDereference

text \<open>The constructor: no prior, fixed-coefficient mode off.\<close>

definition new_MAP_GMMTrainer :: "dbl \<Rightarrow> bool \<Rightarrow> bool \<Rightarrow> bool \<Rightarrow> dbl \<Rightarrow> MAP_GMMTrainer" where
  "new_MAP_GMMTrainer rf um uv uw thr =
     \<lparr>update_means = um, update_variances = uv, update_weights = uw,
      m_mean_var_update_responsibilities_threshold = thr,
      m_ss = ss_resize 0 0,
      relevance_factor = rf, m_prior_gmm = None, m_T3_alpha = 0, m_T3_adaptation = False,
      m_cache_alpha = [], m_cache_ml_weights = [], m_cache_new_weights = [],
      m_cache_ml_means = [], m_cache_prior_means = [], m_cache_new_means = [],
      m_cache_prior_variances = [], m_cache_Exx = [], m_cache_means = []\<rparr>"

definition setPriorGMM :: "MAP_GMMTrainer \<Rightarrow> addr option \<Rightarrow> bool \<times> MAP_GMMTrainer" where
  "setPriorGMM t prior_gmm =
     (case prior_gmm of
        None \<Rightarrow> (False, t)
      | Some p \<Rightarrow> (True, t\<lparr>m_prior_gmm := Some p\<rparr>))"

text \<open>
  \<open>initialization\<close> sizes the statistics and copies the prior into the machine. It
  reads through \<open>m_prior_gmm\<close> without testing it.
\<close>

definition initialization ::
  "MAP_GMMTrainer \<Rightarrow> addr \<Rightarrow> Arrayset \<Rightarrow> store \<Rightarrow> outcome \<times> MAP_GMMTrainer \<times> store" where
  "initialization t gmm data s =
     (let t1 = t\<lparr>m_ss := ss_resize (n_gaussians (s gmm)) (n_inputs (s gmm))\<rparr> in
      case m_prior_gmm t1 of
        None \<Rightarrow> (NullDereference, t1, s)
      | Some p \<Rightarrow>
          let s1 = s(gmm := setWeights (s gmm) (weights (s p)));
              s2 = s1(gmm := setMeans (s1 gmm) (means (s1 p)));
              s3 = s2(gmm := setVariances (s2 gmm) (variances (s2 p)))
          in (Returned, t1, s3))"

section \<open>The adaptation step\<close>

text \<open>The adaptation coefficients, one per component.\<close>

definition mStep_alpha :: "MAP_GMMTrainer \<Rightarrow> nat \<Rightarrow> MAP_GMMTrainer" where
  "mStep_alpha t K =
     (if m_T3_adaptation t
      then t\<lparr>m_cache_alpha := replicate K (m_T3_alpha t)\<rparr>
      else t\<lparr>m_cache_alpha :=
               map (\<lambda>i. ss_n (m_ss t) ! i / (ss_n (m_ss t) ! i + relevance_factor t)) [0..<K]\<rparr>)"

text \<open>The weights: the blend of the maximum-likelihood weights with the prior's, rescaled.\<close>

definition mStep_weights ::
  "MAP_GMMTrainer \<Rightarrow> addr \<Rightarrow> addr \<Rightarrow> nat \<Rightarrow> store \<Rightarrow> MAP_GMMTrainer \<times> store" where
  "mStep_weights t p gmm K s =
     (let t1 = t\<lparr>m_cache_ml_weights :=
                  map (\<lambda>i. ss_n (m_ss t) ! i / Fin (real_of_int (int32_t (ss_T (m_ss t))))) [0..<K]\<rparr>;
          prior_weights = weights (s p);
          t2 = t1\<lparr>m_cache_new_weights :=
                   map (\<lambda>i. m_cache_alpha t1 ! i * m_cache_ml_weights t1 ! i
                             + (1 - m_cache_alpha t1 ! i) * prior_weights ! i) [0..<K]\<rparr>;
          gamma = sum_dbl (m_cache_new_weights t2);
          t3 = t2\<lparr>m_cache_new_weights := map (\<lambda>w. w / gamma) (m_cache_new_weights t2)\<rparr>
      in (t3, s(gmm := setWeights (s gmm) (m_cache_new_weights t3))))"

text \<open>The means: the prior's below the threshold, the blend otherwise.\<close>

definition mStep_means ::
  "MAP_GMMTrainer \<Rightarrow> addr \<Rightarrow> addr \<Rightarrow> nat \<Rightarrow> nat \<Rightarrow> store \<Rightarrow> MAP_GMMTrainer \<times> store" where
  "mStep_means t p gmm K D s =
     (let t1 = t\<lparr>m_cache_ml_means :=
                  map (\<lambda>i. map (\<lambda>j. ss_sumPx (m_ss t) ! i ! j / ss_n (m_ss t) ! i) [0..<D]) [0..<K]\<rparr>;
          t2 = t1\<lparr>m_cache_prior_means := means (s p)\<rparr>;
          t3 = t2\<lparr>m_cache_new_means :=
                   map (\<lambda>i.
                     if ss_n (m_ss t2) ! i < m_mean_var_update_responsibilities_threshold t2
                     then map (\<lambda>j. m_cache_prior_means t2 ! i ! j) [0..<D]
                     else map (\<lambda>j. m_cache_alpha t2 ! i * m_cache_ml_means t2 ! i ! j
                                    + (1 - m_cache_alpha t2 ! i) * m_cache_prior_means t2 ! i ! j)
                              [0..<D])
                     [0..<K]\<rparr>
      in (t3, s(gmm := setMeans (s gmm) (m_cache_new_means t3))))"

text \<open>
  The variances. The means are read from the machine here, after the step above has
  stored them.
\<close>

definition mStep_variances ::
  "MAP_GMMTrainer \<Rightarrow> addr \<Rightarrow> addr \<Rightarrow> nat \<Rightarrow> nat \<Rightarrow> store \<Rightarrow> MAP_GMMTrainer \<times> store" where
  "mStep_variances t p gmm K D s =
     (let t1 = t\<lparr>m_cache_prior_variances := variances (s p)\<rparr>;
          t2 = t1\<lparr>m_cache_Exx :=
                   map (\<lambda>i. map (\<lambda>j. ss_sumPxx (m_ss t1) ! i ! j / ss_n (m_ss t1) ! i) [0..<D]) [0..<K]\<rparr>;
          t3 = t2\<lparr>m_cache_means := means (s gmm)\<rparr>;
          t4 = t3\<lparr>m_cache_prior_means := means (s p)\<rparr>;
          new_variances =
            map (\<lambda>i.
              if ss_n (m_ss t4) ! i < m_mean_var_update_responsibilities_threshold t4
              then map (\<lambda>j. (m_cache_prior_variances t4 ! i ! j + m_cache_prior_means t4 ! i ! j)
                             - pow2 (m_cache_means t4 ! i ! j)) [0..<D]
              else map (\<lambda>j. m_cache_alpha t4 ! i * m_cache_Exx t4 ! i ! j
                             + (1 - m_cache_alpha t4 ! i)
                               * (m_cache_prior_variances t4 ! i ! j + m_cache_prior_means t4 ! i ! j)
                             - pow2 (m_cache_means t4 ! i ! j)) [0..<D])
              [0..<K]
      in (t4, s(gmm := setVariances (s gmm) new_variances)))"

text \<open>
  \<open>mStep\<close>: the test for the prior, then the coefficients and the three updates, each
  under its flag and in this order.
\<close>

definition mStep ::
  "MAP_GMMTrainer \<Rightarrow> addr \<Rightarrow> Arrayset \<Rightarrow> store \<Rightarrow> outcome \<times> MAP_GMMTrainer \<times> store" where
  "mStep t gmm data s =
     (let K = n_gaussians (s gmm); D = n_inputs (s gmm) in
      case m_prior_gmm t of
        None \<Rightarrow> (NoPriorGMM, t, s)
      | Some p \<Rightarrow>
          let t0 = mStep_alpha t K;
              (t1, s1) = (if update_weights t0 then mStep_weights t0 p gmm K s else (t0, s));
              (t2, s2) = (if update_means t1 then mStep_means t1 p gmm K D s1 else (t1, s1));
              (t3, s3) = (if update_variances t2 then mStep_variances t2 p gmm K D s2 else (t2, s2))
          in (Returned, t3, s3))"


text \<open>The three updates in sequence, as \<open>mStep\<close> runs them once the prior is there.\<close>

definition after_weights :: "MAP_GMMTrainer \<Rightarrow> addr \<Rightarrow> addr \<Rightarrow> store \<Rightarrow> MAP_GMMTrainer \<times> store" where
  "after_weights t p gmm s =
     (let t0 = mStep_alpha t (n_gaussians (s gmm)) in
      if update_weights t then mStep_weights t0 p gmm (n_gaussians (s gmm)) s else (t0, s))"

definition after_means :: "MAP_GMMTrainer \<Rightarrow> addr \<Rightarrow> addr \<Rightarrow> store \<Rightarrow> MAP_GMMTrainer \<times> store" where
  "after_means t p gmm s =
     (let r = after_weights t p gmm s in
      if update_means t
      then mStep_means (fst r) p gmm (n_gaussians (s gmm)) (n_inputs (s gmm)) (snd r) else r)"

definition after_variances :: "MAP_GMMTrainer \<Rightarrow> addr \<Rightarrow> addr \<Rightarrow> store \<Rightarrow> MAP_GMMTrainer \<times> store" where
  "after_variances t p gmm s =
     (let r = after_means t p gmm s in
      if update_variances t
      then mStep_variances (fst r) p gmm (n_gaussians (s gmm)) (n_inputs (s gmm)) (snd r) else r)"


section \<open>Shapes\<close>

text \<open>
  The trainer indexes the statistics and the prior with the dimensions of the machine it
  adapts and checks none of them: that they agree is the caller's duty.
\<close>

definition stats_sized :: "GMMStats \<Rightarrow> nat \<Rightarrow> nat \<Rightarrow> bool" where
  "stats_sized ss K D =
     (length (ss_n ss) = K
      \<and> length (ss_sumPx ss) = K \<and> list_all (\<lambda>row. length row = D) (ss_sumPx ss)
      \<and> length (ss_sumPxx ss) = K \<and> list_all (\<lambda>row. length row = D) (ss_sumPxx ss))"

definition machine_sized :: "GMMMachine \<Rightarrow> nat \<Rightarrow> nat \<Rightarrow> bool" where
  "machine_sized g K D =
     (n_gaussians g = K \<and> n_inputs g = D \<and> length (weights g) = K
      \<and> length (means g) = K \<and> list_all (\<lambda>row. length row = D) (means g)
      \<and> length (variances g) = K \<and> list_all (\<lambda>row. length row = D) (variances g))"

section \<open>Example inputs\<close>

text \<open>
  One component in one dimension: a prior with weight 1, mean 0 and variance 1, a relevance
  factor of 16, a threshold of 0, and statistics of 16 samples with first moment 16 and
  second moment 32. The machine to adapt is at address 0 and the prior at address 1.
\<close>

definition machine_A :: GMMMachine where
  "machine_A = \<lparr>n_gaussians = 1, n_inputs = 1, weights = [Fin 1], means = [[Fin 0]], variances = [[Fin 1]]\<rparr>"

definition store_A :: store where
  "store_A = (\<lambda>a. machine_A)"

definition trainer_A :: MAP_GMMTrainer where
  "trainer_A = (new_MAP_GMMTrainer (Fin 16) True True True 0)
          \<lparr>m_ss := \<lparr>ss_T = 16, ss_n = [Fin 16], ss_sumPx = [[Fin 16]], ss_sumPxx = [[Fin 32]]\<rparr>,
           m_prior_gmm := Some 1\<rparr>"

text \<open>
  The same with no occupancy at all (\<open>n = 0\<close> and both moments 0), a prior whose mean
  is 2, and statistics of \<open>2\<^sup>3\<^sup>1\<close> samples, all of them in the one component, with
  a relevance factor of \<open>2\<^sup>3\<^sup>1\<close>.
\<close>

definition trainer_B :: MAP_GMMTrainer where
  "trainer_B = trainer_A\<lparr>m_ss := \<lparr>ss_T = 16, ss_n = [Fin 0], ss_sumPx = [[Fin 0]], ss_sumPxx = [[Fin 0]]\<rparr>\<rparr>"

definition store_C :: store where
  "store_C = store_A(1 := machine_A\<lparr>means := [[Fin 2]]\<rparr>)"

definition trainer_T :: MAP_GMMTrainer where
  "trainer_T = trainer_A
     \<lparr>m_ss := \<lparr>ss_T = 2147483648, ss_n = [Fin 2147483648],
               ss_sumPx = [[Fin 0]], ss_sumPxx = [[Fin 0]]\<rparr>,
      relevance_factor := Fin 2147483648\<rparr>"

section \<open>Properties of the steps\<close>

lemma map_upt_cong: "(\<And>i. i < K \<Longrightarrow> f i = g i) \<Longrightarrow> map f [0..<K] = map g [0..<K]"
  by simp

lemma mStep_weights_new:
  "m_cache_new_weights (fst (mStep_weights t p gmm K s)) =
     map (\<lambda>w. w / sum_dbl (map (\<lambda>i. m_cache_alpha t ! i
                      * (ss_n (m_ss t) ! i / Fin (real_of_int (int32_t (ss_T (m_ss t)))))
                      + (1 - m_cache_alpha t ! i) * weights (s p) ! i) [0..<K]))
               (map (\<lambda>i. m_cache_alpha t ! i
                      * (ss_n (m_ss t) ! i / Fin (real_of_int (int32_t (ss_T (m_ss t)))))
                      + (1 - m_cache_alpha t ! i) * weights (s p) ! i) [0..<K])"
proof -
  have blend: "map (\<lambda>i. m_cache_alpha t ! i
                  * map (\<lambda>i. ss_n (m_ss t) ! i / Fin (real_of_int (int32_t (ss_T (m_ss t))))) [0..<K] ! i
                  + (1 - m_cache_alpha t ! i) * weights (s p) ! i) [0..<K]
        = map (\<lambda>i. m_cache_alpha t ! i
                      * (ss_n (m_ss t) ! i / Fin (real_of_int (int32_t (ss_T (m_ss t)))))
                      + (1 - m_cache_alpha t ! i) * weights (s p) ! i) [0..<K]"
    by (rule map_upt_cong) simp
  show ?thesis
    unfolding mStep_weights_def Let_def by (simp add: blend del: map_map)
qed

lemma mStep_weights_store:
  "snd (mStep_weights t p gmm K s) =
     s(gmm := (s gmm)\<lparr>weights := m_cache_new_weights (fst (mStep_weights t p gmm K s))\<rparr>)"
  by (simp add: mStep_weights_def Let_def setWeights_def)


lemma mStep_alpha_fields:
  "update_means (mStep_alpha t K) = update_means t"
  "update_variances (mStep_alpha t K) = update_variances t"
  "update_weights (mStep_alpha t K) = update_weights t"
  "m_mean_var_update_responsibilities_threshold (mStep_alpha t K) = m_mean_var_update_responsibilities_threshold t"
  "m_ss (mStep_alpha t K) = m_ss t"
  "m_prior_gmm (mStep_alpha t K) = m_prior_gmm t"
  by (simp_all add: mStep_alpha_def)

lemma mStep_weights_fields:
  "update_means (fst (mStep_weights t p gmm K s)) = update_means t"
  "update_variances (fst (mStep_weights t p gmm K s)) = update_variances t"
  "m_mean_var_update_responsibilities_threshold (fst (mStep_weights t p gmm K s)) = m_mean_var_update_responsibilities_threshold t"
  "m_ss (fst (mStep_weights t p gmm K s)) = m_ss t"
  "m_prior_gmm (fst (mStep_weights t p gmm K s)) = m_prior_gmm t"
  "m_cache_alpha (fst (mStep_weights t p gmm K s)) = m_cache_alpha t"
  by (simp_all add: mStep_weights_def Let_def)

lemma mStep_means_fields:
  "update_variances (fst (mStep_means t p gmm K D s)) = update_variances t"
  "m_mean_var_update_responsibilities_threshold (fst (mStep_means t p gmm K D s)) = m_mean_var_update_responsibilities_threshold t"
  "m_ss (fst (mStep_means t p gmm K D s)) = m_ss t"
  "m_prior_gmm (fst (mStep_means t p gmm K D s)) = m_prior_gmm t"
  "m_cache_alpha (fst (mStep_means t p gmm K D s)) = m_cache_alpha t"
  by (simp_all add: mStep_means_def Let_def)

lemma mStep_variances_fields:
  "m_prior_gmm (fst (mStep_variances t p gmm K D s)) = m_prior_gmm t"
  "m_cache_alpha (fst (mStep_variances t p gmm K D s)) = m_cache_alpha t"
  by (simp_all add: mStep_variances_def Let_def)

lemmas mStep_fields = mStep_alpha_fields mStep_weights_fields mStep_means_fields
  mStep_variances_fields

lemma mStep_means_store:
  "snd (mStep_means t p gmm K D s) a =
     (if a = gmm then (s gmm)\<lparr>means :=
             map (\<lambda>i.
               if ss_n (m_ss t) ! i < m_mean_var_update_responsibilities_threshold t
               then map (\<lambda>j. means (s p) ! i ! j) [0..<D]
               else map (\<lambda>j. m_cache_alpha t ! i * (ss_sumPx (m_ss t) ! i ! j / ss_n (m_ss t) ! i)
                              + (1 - m_cache_alpha t ! i) * means (s p) ! i ! j) [0..<D])
               [0..<K]\<rparr> else s a)"
  by (simp add: mStep_means_def Let_def setMeans_def cong: map_cong if_cong)

lemma mStep_variances_store:
  "snd (mStep_variances t p gmm K D s) a =
     (if a = gmm then (s gmm)\<lparr>variances :=
             map (\<lambda>i.
               if ss_n (m_ss t) ! i < m_mean_var_update_responsibilities_threshold t
               then map (\<lambda>j. (variances (s p) ! i ! j + means (s p) ! i ! j)
                              - pow2 (means (s gmm) ! i ! j)) [0..<D]
               else map (\<lambda>j. m_cache_alpha t ! i * (ss_sumPxx (m_ss t) ! i ! j / ss_n (m_ss t) ! i)
                              + (1 - m_cache_alpha t ! i)
                                * (variances (s p) ! i ! j + means (s p) ! i ! j)
                              - pow2 (means (s gmm) ! i ! j)) [0..<D])
               [0..<K]\<rparr> else s a)"
  by (simp add: mStep_variances_def Let_def setVariances_def cong: map_cong if_cong)

lemma mStep_with_prior:
  "m_prior_gmm t = Some p \<Longrightarrow> mStep t gmm data s = (Returned, after_variances t p gmm s)"
  by (simp add: mStep_def after_variances_def after_means_def after_weights_def Let_def
      split_def mStep_fields)

lemma mStep_without_prior_eq:
  "m_prior_gmm t = None \<Longrightarrow> mStep t gmm data s = (NoPriorGMM, t, s)"
  by (simp add: mStep_def)


lemma after_weights_fields:
  "m_cache_alpha (fst (after_weights t p gmm s)) = m_cache_alpha (mStep_alpha t (n_gaussians (s gmm)))"
  "m_ss (fst (after_weights t p gmm s)) = m_ss t"
  "m_mean_var_update_responsibilities_threshold (fst (after_weights t p gmm s)) = m_mean_var_update_responsibilities_threshold t"
  by (simp_all add: after_weights_def Let_def mStep_fields)

lemma after_means_fields:
  "m_cache_alpha (fst (after_means t p gmm s)) = m_cache_alpha (mStep_alpha t (n_gaussians (s gmm)))"
  "m_ss (fst (after_means t p gmm s)) = m_ss t"
  "m_mean_var_update_responsibilities_threshold (fst (after_means t p gmm s)) = m_mean_var_update_responsibilities_threshold t"
  by (simp_all add: after_means_def Let_def mStep_fields after_weights_fields)

lemma after_variances_alpha:
  "m_cache_alpha (fst (after_variances t p gmm s)) = m_cache_alpha (mStep_alpha t (n_gaussians (s gmm)))"
  by (simp add: after_variances_def Let_def mStep_fields after_means_fields)

lemma after_weights_frame:
  "means (snd (after_weights t p gmm s) a) = means (s a)"
  "variances (snd (after_weights t p gmm s) a) = variances (s a)"
  "\<not> update_weights t \<Longrightarrow> weights (snd (after_weights t p gmm s) a) = weights (s a)"
  "a \<noteq> gmm \<Longrightarrow> snd (after_weights t p gmm s) a = s a"
  by (simp_all add: after_weights_def Let_def mStep_weights_store)

lemma after_means_frame:
  "weights (snd (after_means t p gmm s) a) = weights (snd (after_weights t p gmm s) a)"
  "variances (snd (after_means t p gmm s) a) = variances (s a)"
  "\<not> update_means t \<Longrightarrow> means (snd (after_means t p gmm s) a) = means (s a)"
  "a \<noteq> gmm \<Longrightarrow> snd (after_means t p gmm s) a = s a"
  by (simp_all add: after_means_def Let_def mStep_means_store after_weights_frame)

lemma after_variances_frame:
  "weights (snd (after_variances t p gmm s) a) = weights (snd (after_weights t p gmm s) a)"
  "means (snd (after_variances t p gmm s) a) = means (snd (after_means t p gmm s) a)"
  "\<not> update_variances t \<Longrightarrow> variances (snd (after_variances t p gmm s) a) = variances (s a)"
  "a \<noteq> gmm \<Longrightarrow> snd (after_variances t p gmm s) a = s a"
  by (simp_all add: after_variances_def Let_def mStep_variances_store after_means_frame after_weights_frame)

lemma mStep_alpha_nth:
  "k < K \<Longrightarrow>
   m_cache_alpha (mStep_alpha t K) ! k =
     (if m_T3_adaptation t then m_T3_alpha t
      else ss_n (m_ss t) ! k / (ss_n (m_ss t) ! k + relevance_factor t))"
  by (simp add: mStep_alpha_def)

lemma mStep_alpha_length: "length (m_cache_alpha (mStep_alpha t K)) = K"
  by (simp add: mStep_alpha_def)


lemma after_means_new:
  assumes "update_means t" and "k < n_gaussians (s gmm)" and "d < n_inputs (s gmm)"
  shows "length (means (snd (after_means t p gmm s) gmm)) = n_gaussians (s gmm)"
    and "length (means (snd (after_means t p gmm s) gmm) ! k) = n_inputs (s gmm)"
    and "means (snd (after_means t p gmm s) gmm) ! k ! d =
       (if ss_n (m_ss t) ! k < m_mean_var_update_responsibilities_threshold t
        then means (s p) ! k ! d
        else m_cache_alpha (mStep_alpha t (n_gaussians (s gmm))) ! k
               * (ss_sumPx (m_ss t) ! k ! d / ss_n (m_ss t) ! k)
             + (1 - m_cache_alpha (mStep_alpha t (n_gaussians (s gmm))) ! k) * means (s p) ! k ! d)"
  using assms
  by (simp_all add: after_means_def Let_def mStep_means_store after_weights_fields after_weights_frame)

lemma after_variances_new:
  assumes "update_variances t" and "k < n_gaussians (s gmm)" and "d < n_inputs (s gmm)"
  shows "variances (snd (after_variances t p gmm s) gmm) ! k ! d =
       (if ss_n (m_ss t) ! k < m_mean_var_update_responsibilities_threshold t
        then (variances (s p) ! k ! d + means (snd (after_means t p gmm s) p) ! k ! d)
             - pow2 (means (snd (after_means t p gmm s) gmm) ! k ! d)
        else m_cache_alpha (mStep_alpha t (n_gaussians (s gmm))) ! k
               * (ss_sumPxx (m_ss t) ! k ! d / ss_n (m_ss t) ! k)
             + (1 - m_cache_alpha (mStep_alpha t (n_gaussians (s gmm))) ! k)
               * (variances (s p) ! k ! d + means (snd (after_means t p gmm s) p) ! k ! d)
             - pow2 (means (snd (after_means t p gmm s) gmm) ! k ! d))"
  using assms
  by (simp add: after_variances_def Let_def mStep_variances_store after_means_fields
      after_means_frame)

lemmas example_defs = trainer_A_def store_A_def machine_A_def new_MAP_GMMTrainer_def
  ss_resize_def stats_sized_def machine_sized_def zero_dbl_def one_dbl_def minus_dbl_def
  pow2_def sum_dbl_def less_eq_dbl_def

lemma machine_sized_mean_row:
  "machine_sized g K D \<Longrightarrow> k < K \<Longrightarrow> length (means g ! k) = D"
  by (simp add: machine_sized_def list_all_length)

lemma after_means_fallback_row:
  assumes "update_means t" and "k < n_gaussians (s gmm)"
    and "ss_n (m_ss t) ! k < m_mean_var_update_responsibilities_threshold t"
    and "length (means (s p) ! k) = n_inputs (s gmm)"
  shows "means (snd (after_means t p gmm s) gmm) ! k = means (s p) ! k"
proof -
  have "means (snd (after_means t p gmm s) gmm) ! k
          = map (\<lambda>j. means (s p) ! k ! j) [0..<n_inputs (s gmm)]"
    using assms(1,2,3)
    by (simp add: after_means_def Let_def mStep_means_store after_weights_fields after_weights_frame)
  also have "\<dots> = means (s p) ! k"
    using assms(4) map_nth [of "means (s p) ! k"] by simp
  finally show ?thesis .
qed

lemma after_weights_new:
  assumes "update_weights t"
  shows "weights (snd (after_weights t p gmm s) gmm) =
     map (\<lambda>w. w / sum_dbl (map (\<lambda>i. m_cache_alpha (mStep_alpha t (n_gaussians (s gmm))) ! i
                      * (ss_n (m_ss t) ! i / Fin (real_of_int (int32_t (ss_T (m_ss t)))))
                      + (1 - m_cache_alpha (mStep_alpha t (n_gaussians (s gmm))) ! i) * weights (s p) ! i)
                  [0..<n_gaussians (s gmm)]))
         (map (\<lambda>i. m_cache_alpha (mStep_alpha t (n_gaussians (s gmm))) ! i
                      * (ss_n (m_ss t) ! i / Fin (real_of_int (int32_t (ss_T (m_ss t)))))
                      + (1 - m_cache_alpha (mStep_alpha t (n_gaussians (s gmm))) ! i) * weights (s p) ! i)
                  [0..<n_gaussians (s gmm)])"
  using assms
  by (simp add: after_weights_def Let_def mStep_weights_store mStep_weights_new mStep_fields
      del: map_map)

lemma mStep_outcome:
  "fst (mStep t gmm data s) = (if m_prior_gmm t = None then NoPriorGMM else Returned)"
  by (cases "m_prior_gmm t") (simp_all add: mStep_with_prior mStep_without_prior_eq)

lemma after_variances_prior:
  "m_prior_gmm (fst (after_variances t p gmm s)) = m_prior_gmm t"
  by (simp add: after_variances_def after_means_def after_weights_def Let_def mStep_fields)

lemma mStep_keeps_prior:
  "m_prior_gmm (fst (snd (mStep t gmm data s))) = m_prior_gmm t"
  by (cases "m_prior_gmm t")
     (simp_all add: mStep_with_prior mStep_without_prior_eq after_variances_prior)

lemma int32_t_wraps: "int32_t 2147483648 = - 2147483648"
  by (simp add: int32_t_def)

lemmas mStep_run = mStep_with_prior after_variances_alpha after_variances_frame
  after_variances_new after_means_new after_weights_new mStep_alpha_nth
  after_means_frame after_weights_frame

section \<open>The claims\<close>

text \<open>
  C6. When no prior has been set, \<open>mStep\<close> throws \<open>NoPriorGMM\<close> and leaves every
  machine of the store, hence the weights, means and variances of the model, and the
  trainer as they were.
\<close>

theorem mStep_missing_prior:
  assumes "m_prior_gmm t = None"
  shows "mStep t gmm data s = (NoPriorGMM, t, s)"
  using assms by (simp add: mStep_def)

theorem mStep_missing_prior_witness:
  "m_prior_gmm (new_MAP_GMMTrainer (Fin 16) True True True 0) = None
   \<and> mStep (new_MAP_GMMTrainer (Fin 16) True True True 0) 0 [] store_A
       = (NoPriorGMM, new_MAP_GMMTrainer (Fin 16) True True True 0, store_A)"
  using mStep_missing_prior [of "new_MAP_GMMTrainer (Fin 16) True True True 0" 0 "[]" store_A]
  by (simp add: new_MAP_GMMTrainer_def)

text \<open>
  C9. Each flag guards its own update: with \<open>update_weights\<close> off the weights of the
  model are unchanged by \<open>mStep\<close>, with \<open>update_means\<close> off the means, and with
  \<open>update_variances\<close> off the variances, whatever the other two flags are.
\<close>

theorem mStep_flags_independent:
  "(\<not> update_weights t \<longrightarrow> weights (snd (snd (mStep t gmm data s)) gmm) = weights (s gmm))
   \<and> (\<not> update_means t \<longrightarrow> means (snd (snd (mStep t gmm data s)) gmm) = means (s gmm))
   \<and> (\<not> update_variances t \<longrightarrow> variances (snd (snd (mStep t gmm data s)) gmm) = variances (s gmm))"
proof (cases "m_prior_gmm t")
  case None
  then show ?thesis by (simp add: mStep_without_prior_eq)
next
  case (Some p)
  then show ?thesis
    by (simp add: mStep_with_prior after_variances_frame after_means_frame after_weights_frame)
qed

theorem mStep_flags_independent_witness:
  "\<not> update_weights (trainer_A\<lparr>update_weights := False, update_variances := False\<rparr>)
   \<and> \<not> update_variances (trainer_A\<lparr>update_weights := False, update_variances := False\<rparr>)
   \<and> weights (snd (snd (mStep (trainer_A\<lparr>update_weights := False, update_variances := False\<rparr>)
                 0 [] store_A)) 0) = weights (store_A 0)
   \<and> variances (snd (snd (mStep (trainer_A\<lparr>update_weights := False, update_variances := False\<rparr>)
                 0 [] store_A)) 0) = variances (store_A 0)
   \<and> \<not> update_means (trainer_A\<lparr>update_means := False\<rparr>)
   \<and> means (snd (snd (mStep (trainer_A\<lparr>update_means := False\<rparr>) 0 [] store_A)) 0)
       = means (store_A 0)"
  using mStep_flags_independent
          [of "trainer_A\<lparr>update_weights := False, update_variances := False\<rparr>" 0 "[]" store_A]
        mStep_flags_independent [of "trainer_A\<lparr>update_means := False\<rparr>" 0 "[]" store_A]
  by (simp add: trainer_A_def new_MAP_GMMTrainer_def)

text \<open>
  C5. On a call of \<open>mStep\<close> that finds a prior, the coefficient kept for component \<open>k\<close>
  is the configured constant in fixed-coefficient mode, and \<open>n k / (n k + relevance_factor)\<close>
  otherwise; there is one coefficient per component.
\<close>

theorem mStep_adaptation_coefficient:
  assumes "m_prior_gmm t = Some p"
    and "length (ss_n (m_ss t)) = n_gaussians (s gmm)"
    and "mStep t gmm data s = (r, t', s')"
    and "k < n_gaussians (s gmm)"
  shows "length (m_cache_alpha t') = n_gaussians (s gmm)
    \<and> m_cache_alpha t' ! k =
       (if m_T3_adaptation t then m_T3_alpha t
        else ss_n (m_ss t) ! k / (ss_n (m_ss t) ! k + relevance_factor t))"
proof -
  have "t' = fst (after_variances t p gmm s)"
    using assms(1,3) by (simp add: mStep_with_prior)
  then show ?thesis
    using assms(4) by (simp add: after_variances_alpha mStep_alpha_nth mStep_alpha_length)
qed

theorem mStep_adaptation_coefficient_witness:
  "m_prior_gmm trainer_A = Some 1
   \<and> length (ss_n (m_ss trainer_A)) = n_gaussians (store_A 0)
   \<and> (0::nat) < n_gaussians (store_A 0)
   \<and> \<not> m_T3_adaptation trainer_A
   \<and> m_cache_alpha (fst (snd (mStep trainer_A 0 [] store_A))) = [Fin (1 / 2)]"
proof -
  obtain r t' s' where m: "mStep trainer_A 0 [] store_A = (r, t', s')"
    by (cases "mStep trainer_A 0 [] store_A") 
  have h: "m_prior_gmm trainer_A = Some 1" "length (ss_n (m_ss trainer_A)) = n_gaussians (store_A 0)"
     "(0::nat) < n_gaussians (store_A 0)" "\<not> m_T3_adaptation trainer_A"
     "ss_n (m_ss trainer_A) = [Fin 16]" "relevance_factor trainer_A = Fin 16"
     "n_gaussians (store_A 0) = 1"
    by (simp_all add: trainer_A_def store_A_def machine_A_def new_MAP_GMMTrainer_def)
  from mStep_adaptation_coefficient [OF h(1) h(2) m h(3)] h
  have "length (m_cache_alpha t') = 1 \<and> m_cache_alpha t' ! 0 = Fin (1/2)"
    by simp
  then have "m_cache_alpha t' = [Fin (1/2)]"
    by (cases "m_cache_alpha t'") auto
  with m h show ?thesis by simp
qed

text \<open>
  C4. With the mean update on, \<open>mStep\<close> stores one mean per component and dimension:
  the prior's mean, unblended, where \<open>n k\<close> is below the threshold, and
  \<open>alpha k * (sumPx k d / n k) + (1 - alpha k) * prior mean\<close> otherwise.
\<close>

theorem mStep_means_update:
  assumes "m_prior_gmm t = Some p"
    and "update_means t"
    and "stats_sized (m_ss t) (n_gaussians (s gmm)) (n_inputs (s gmm))"
    and "machine_sized (s p) (n_gaussians (s gmm)) (n_inputs (s gmm))"
    and "mStep t gmm data s = (r, t', s')"
    and "k < n_gaussians (s gmm)" and "d < n_inputs (s gmm)"
  shows "length (means (s' gmm)) = n_gaussians (s gmm)
    \<and> length (means (s' gmm) ! k) = n_inputs (s gmm)
    \<and> means (s' gmm) ! k ! d =
       (if ss_n (m_ss t) ! k < m_mean_var_update_responsibilities_threshold t
        then means (s p) ! k ! d
        else m_cache_alpha t' ! k * (ss_sumPx (m_ss t) ! k ! d / ss_n (m_ss t) ! k)
             + (1 - m_cache_alpha t' ! k) * means (s p) ! k ! d)"
proof -
  have "t' = fst (after_variances t p gmm s)" "s' = snd (after_variances t p gmm s)"
    using assms(1,5) by (simp_all add: mStep_with_prior)
  then show ?thesis
    using assms(2,6,7)
    by (simp add: after_variances_alpha after_variances_frame after_means_new)
qed


theorem mStep_means_update_witness:
  "m_prior_gmm trainer_A = Some 1 \<and> update_means trainer_A
   \<and> stats_sized (m_ss trainer_A) (n_gaussians (store_A 0)) (n_inputs (store_A 0))
   \<and> machine_sized (store_A 1) (n_gaussians (store_A 0)) (n_inputs (store_A 0))
   \<and> (0::nat) < n_gaussians (store_A 0) \<and> (0::nat) < n_inputs (store_A 0)
   \<and> \<not> ss_n (m_ss trainer_A) ! 0 < m_mean_var_update_responsibilities_threshold trainer_A
   \<and> means (snd (snd (mStep trainer_A 0 [] store_A)) 0) ! 0 ! 0 = Fin (1 / 2)"
  using mStep_means_update [of trainer_A 1 store_A 0 "[]" "fst (mStep trainer_A 0 [] store_A)"
          "fst (snd (mStep trainer_A 0 [] store_A))" "snd (snd (mStep trainer_A 0 [] store_A))" 0 0]
  by (simp add: example_defs mStep_with_prior after_variances_alpha mStep_alpha_nth)

text \<open>
  C2. With the variance update on and a prior that is a machine of its own, \<open>mStep\<close>
  stores for component \<open>k\<close> and dimension \<open>d\<close> the variance
  \<open>(prior variance + prior mean) - mean\<^sup>2\<close> where \<open>n k\<close> is below the threshold and
  \<open>alpha k * (sumPxx k d / n k) + (1 - alpha k) * (prior variance + prior mean) - mean\<^sup>2\<close>
  otherwise. Here \<open>mean\<close> is the mean the model holds once the mean update has stored its
  result: the new mean when that update is on, the mean from before the call when it is off.
\<close>

theorem mStep_variances_update:
  assumes "m_prior_gmm t = Some p" and "p \<noteq> gmm"
    and "update_variances t"
    and "stats_sized (m_ss t) (n_gaussians (s gmm)) (n_inputs (s gmm))"
    and "machine_sized (s p) (n_gaussians (s gmm)) (n_inputs (s gmm))"
    and "machine_sized (s gmm) (n_gaussians (s gmm)) (n_inputs (s gmm))"
    and "mStep t gmm data s = (r, t', s')"
    and "k < n_gaussians (s gmm)" and "d < n_inputs (s gmm)"
  shows "variances (s' gmm) ! k ! d =
       (if ss_n (m_ss t) ! k < m_mean_var_update_responsibilities_threshold t
        then (variances (s p) ! k ! d + means (s p) ! k ! d) - pow2 (means (s' gmm) ! k ! d)
        else m_cache_alpha t' ! k * (ss_sumPxx (m_ss t) ! k ! d / ss_n (m_ss t) ! k)
             + (1 - m_cache_alpha t' ! k) * (variances (s p) ! k ! d + means (s p) ! k ! d)
             - pow2 (means (s' gmm) ! k ! d))
    \<and> (update_means t \<longrightarrow>
         means (s' gmm) ! k ! d =
           (if ss_n (m_ss t) ! k < m_mean_var_update_responsibilities_threshold t
            then means (s p) ! k ! d
            else m_cache_alpha t' ! k * (ss_sumPx (m_ss t) ! k ! d / ss_n (m_ss t) ! k)
                 + (1 - m_cache_alpha t' ! k) * means (s p) ! k ! d))
    \<and> (\<not> update_means t \<longrightarrow> means (s' gmm) ! k ! d = means (s gmm) ! k ! d)"
proof -
  have res: "t' = fst (after_variances t p gmm s)" "s' = snd (after_variances t p gmm s)"
    using assms(1,7) by (simp_all add: mStep_with_prior)
  have prior_kept: "means (snd (after_means t p gmm s) p) = means (s p)"
    using assms(2) by (simp add: after_means_frame)
  have v: "variances (s' gmm) ! k ! d =
       (if ss_n (m_ss t) ! k < m_mean_var_update_responsibilities_threshold t
        then (variances (s p) ! k ! d + means (s p) ! k ! d) - pow2 (means (s' gmm) ! k ! d)
        else m_cache_alpha t' ! k * (ss_sumPxx (m_ss t) ! k ! d / ss_n (m_ss t) ! k)
             + (1 - m_cache_alpha t' ! k) * (variances (s p) ! k ! d + means (s p) ! k ! d)
             - pow2 (means (s' gmm) ! k ! d))"
    using assms(3,8,9)
    by (simp add: res after_variances_new prior_kept after_variances_alpha after_variances_frame)
  have m1: "update_means t \<longrightarrow>
         means (s' gmm) ! k ! d =
           (if ss_n (m_ss t) ! k < m_mean_var_update_responsibilities_threshold t
            then means (s p) ! k ! d
            else m_cache_alpha t' ! k * (ss_sumPx (m_ss t) ! k ! d / ss_n (m_ss t) ! k)
                 + (1 - m_cache_alpha t' ! k) * means (s p) ! k ! d)"
    using assms(8,9)
    by (simp add: res after_variances_alpha after_variances_frame after_means_new)
  have m2: "\<not> update_means t \<longrightarrow> means (s' gmm) ! k ! d = means (s gmm) ! k ! d"
    by (simp add: res after_variances_frame after_means_frame)
  from v m1 m2 show ?thesis by blast
qed

theorem mStep_variances_update_witness:
  "m_prior_gmm trainer_A = Some 1 \<and> (1::nat) \<noteq> 0 \<and> update_variances trainer_A
   \<and> update_means trainer_A
   \<and> stats_sized (m_ss trainer_A) (n_gaussians (store_A 0)) (n_inputs (store_A 0))
   \<and> machine_sized (store_A 1) (n_gaussians (store_A 0)) (n_inputs (store_A 0))
   \<and> machine_sized (store_A 0) (n_gaussians (store_A 0)) (n_inputs (store_A 0))
   \<and> (0::nat) < n_gaussians (store_A 0) \<and> (0::nat) < n_inputs (store_A 0)
   \<and> means (snd (snd (mStep trainer_A 0 [] store_A)) 0) ! 0 ! 0 = Fin (1 / 2)
   \<and> variances (snd (snd (mStep trainer_A 0 [] store_A)) 0) ! 0 ! 0 = Fin (5 / 4)"
  using mStep_variances_update [of trainer_A 1 0 store_A "[]" "fst (mStep trainer_A 0 [] store_A)"
          "fst (snd (mStep trainer_A 0 [] store_A))" "snd (snd (mStep trainer_A 0 [] store_A))" 0 0]
  by (simp add: example_defs mStep_with_prior after_variances_alpha mStep_alpha_nth)


text \<open>
  C1, as the code has it. For a component \<open>k\<close> with \<open>n k = 0\<close> and a threshold above
  zero, the mean of the component after \<open>mStep\<close> with the mean update on is the prior's
  mean, whatever the relevance factor and the coefficient mode.
\<close>

theorem mStep_zero_occupancy_mean:
  assumes "m_prior_gmm t = Some p"
    and "update_means t"
    and "machine_sized (s p) (n_gaussians (s gmm)) (n_inputs (s gmm))"
    and "mStep t gmm data s = (r, t', s')"
    and "k < n_gaussians (s gmm)"
    and "ss_n (m_ss t) ! k = 0"
    and "0 < m_mean_var_update_responsibilities_threshold t"
  shows "means (s' gmm) ! k = means (s p) ! k"
proof -
  have "s' = snd (after_variances t p gmm s)"
    using assms(1,4) by (simp add: mStep_with_prior)
  moreover have "length (means (s p) ! k) = n_inputs (s gmm)"
    using assms(3,5) by (rule machine_sized_mean_row)
  ultimately show ?thesis
    using assms(2,5,6,7) by (simp add: after_variances_frame after_means_fallback_row)
qed

theorem mStep_zero_occupancy_mean_witness:
  "m_prior_gmm (trainer_B\<lparr>m_mean_var_update_responsibilities_threshold := Fin 1\<rparr>) = Some 1
   \<and> update_means (trainer_B\<lparr>m_mean_var_update_responsibilities_threshold := Fin 1\<rparr>)
   \<and> machine_sized (store_C 1) (n_gaussians (store_C 0)) (n_inputs (store_C 0))
   \<and> (0::nat) < n_gaussians (store_C 0)
   \<and> ss_n (m_ss (trainer_B\<lparr>m_mean_var_update_responsibilities_threshold := Fin 1\<rparr>)) ! 0 = 0
   \<and> 0 < m_mean_var_update_responsibilities_threshold
            (trainer_B\<lparr>m_mean_var_update_responsibilities_threshold := Fin 1\<rparr>)
   \<and> means (snd (snd (mStep (trainer_B\<lparr>m_mean_var_update_responsibilities_threshold := Fin 1\<rparr>)
                0 [] store_C)) 0) ! 0 = [Fin 2]"
  using mStep_zero_occupancy_mean
    [of "trainer_B\<lparr>m_mean_var_update_responsibilities_threshold := Fin 1\<rparr>" 1 store_C 0 "[]"
        "fst (mStep (trainer_B\<lparr>m_mean_var_update_responsibilities_threshold := Fin 1\<rparr>) 0 [] store_C)"
        "fst (snd (mStep (trainer_B\<lparr>m_mean_var_update_responsibilities_threshold := Fin 1\<rparr>) 0 [] store_C))"
        "snd (snd (mStep (trainer_B\<lparr>m_mean_var_update_responsibilities_threshold := Fin 1\<rparr>) 0 [] store_C))" 0]
  by (simp add: trainer_B_def store_C_def example_defs)

text \<open>
  C1 as it was stated fails in two places. With a threshold of exactly zero the
  test \<open>n k < threshold\<close> is false for \<open>n k = 0\<close>: the blend is taken, \<open>0 / 0\<close> enters
  it and the mean stored is not a number. With a threshold above zero the mean is the
  prior's, and the variance stored is \<open>(prior variance + prior mean) - mean\<^sup>2\<close>, which
  for a prior of mean 2 and variance 1 is \<open>-1\<close>.
\<close>

theorem mStep_zero_occupancy_counterexample:
  "ss_n (m_ss trainer_B) ! 0 = 0
   \<and> 0 \<le> m_mean_var_update_responsibilities_threshold trainer_B
   \<and> update_means trainer_B \<and> update_variances trainer_B
   \<and> means (store_A 1) ! 0 ! 0 = Fin 0
   \<and> means (snd (snd (mStep trainer_B 0 [] store_A)) 0) ! 0 ! 0 = NaN
   \<and> means (snd (snd (mStep trainer_B 0 [] store_A)) 0) ! 0 \<noteq> means (store_A 1) ! 0
   \<and> 0 \<le> m_mean_var_update_responsibilities_threshold
            (trainer_B\<lparr>m_mean_var_update_responsibilities_threshold := Fin 1\<rparr>)
   \<and> variances (store_C 1) ! 0 ! 0 = Fin 1
   \<and> variances (snd (snd (mStep (trainer_B\<lparr>m_mean_var_update_responsibilities_threshold := Fin 1\<rparr>)
                   0 [] store_C)) 0) ! 0 ! 0 = Fin (- 1)
   \<and> variances (snd (snd (mStep (trainer_B\<lparr>m_mean_var_update_responsibilities_threshold := Fin 1\<rparr>)
                   0 [] store_C)) 0) ! 0 \<noteq> variances (store_C 1) ! 0"
proof -
  have m: "means (snd (snd (mStep trainer_B 0 [] store_A)) 0) ! 0 ! 0 = NaN"
    by (simp add: trainer_B_def example_defs mStep_run)
  have v: "variances (snd (snd (mStep (trainer_B\<lparr>m_mean_var_update_responsibilities_threshold := Fin 1\<rparr>)
                   0 [] store_C)) 0) ! 0 ! 0 = Fin (- 1)"
    by (simp add: trainer_B_def store_C_def example_defs mStep_run)
  have m0: "means (store_A 1) ! 0 = [Fin 0]" and v0: "variances (store_C 1) ! 0 = [Fin 1]"
    by (simp_all add: store_C_def example_defs)
  have "means (snd (snd (mStep trainer_B 0 [] store_A)) 0) ! 0 \<noteq> means (store_A 1) ! 0"
    using m unfolding m0 by (metis dbl.distinct(5) nth_Cons_0)
  moreover have "variances (snd (snd (mStep (trainer_B\<lparr>m_mean_var_update_responsibilities_threshold := Fin 1\<rparr>)
                   0 [] store_C)) 0) ! 0 \<noteq> variances (store_C 1) ! 0"
    using v unfolding v0 by (metis dbl.inject nth_Cons_0 neg_equal_iff_equal one_neq_neg_one)
  moreover have "ss_n (m_ss trainer_B) ! 0 = 0
      \<and> 0 \<le> m_mean_var_update_responsibilities_threshold trainer_B
      \<and> update_means trainer_B \<and> update_variances trainer_B
      \<and> 0 \<le> m_mean_var_update_responsibilities_threshold
            (trainer_B\<lparr>m_mean_var_update_responsibilities_threshold := Fin 1\<rparr>)"
    by (simp add: trainer_B_def example_defs)
  ultimately show ?thesis
    using m v m0 v0 by simp
qed

text \<open>
  C3. The weights stored by the weight update are meant to be the blend of the
  maximum-likelihood weights \<open>n k / T\<close> with the prior's, divided by their sum, and so
  to sum to 1: the code's comments name the maximum-likelihood weights and a scale factor
  that makes the new weights sum to unity. The code divides \<open>n k\<close> by \<open>(int32_t) T\<close>, and the two differ once the
  count does not fit a signed 32-bit integer. With \<open>2\<^sup>3\<^sup>1\<close> samples in one component,
  a relevance factor of \<open>2\<^sup>3\<^sup>1\<close> and a prior weight of 1, the converted count is
  \<open>-2\<^sup>3\<^sup>1\<close>: the coefficient is \<open>1/2\<close>, the maximum-likelihood weight comes out as
  \<open>-1\<close> where \<open>n / T\<close> is 1, the blend and its sum are 0 where the blend with \<open>n / T\<close>
  is 1, and the weight stored is \<open>0 / 0\<close>: it is not the renormalised blend, which is
  1, and the weights do not sum to 1.
\<close>

theorem mStep_weights_wrapped_count:
  "m_prior_gmm trainer_T = Some 1 \<and> update_weights trainer_T
   \<and> ss_T (m_ss trainer_T) = 2 ^ 31
   \<and> int32_t (ss_T (m_ss trainer_T)) = - (2 ^ 31)
   \<and> m_cache_alpha (fst (snd (mStep trainer_T 0 [] store_A))) = [Fin (1 / 2)]
   \<and> m_cache_ml_weights (fst (snd (mStep trainer_T 0 [] store_A))) = [Fin (- 1)]
   \<and> ss_n (m_ss trainer_T) ! 0 / Fin (real (ss_T (m_ss trainer_T))) = Fin 1
   \<and> (let a = m_cache_alpha (fst (snd (mStep trainer_T 0 [] store_A))) ! 0;
           b = a * (ss_n (m_ss trainer_T) ! 0 / Fin (real (ss_T (m_ss trainer_T))))
               + (1 - a) * weights (store_A 1) ! 0
       in b / sum_dbl [b]) = Fin 1
   \<and> weights (snd (snd (mStep trainer_T 0 [] store_A)) 0) = [NaN]
   \<and> sum_dbl (weights (snd (snd (mStep trainer_T 0 [] store_A)) 0)) = NaN
   \<and> sum_dbl (weights (snd (snd (mStep trainer_T 0 [] store_A)) 0)) \<noteq> 1"
proof -
  have run: "mStep trainer_T 0 [] store_A = (Returned, after_variances trainer_T 1 0 store_A)"
    by (simp add: mStep_with_prior trainer_T_def example_defs)
  have ml: "m_cache_ml_weights (fst (snd (mStep trainer_T 0 [] store_A))) = [Fin (- 1)]"
    unfolding run
    by (simp add: after_variances_def after_means_def after_weights_def Let_def
        mStep_variances_def mStep_means_def mStep_weights_def mStep_alpha_def
        trainer_T_def example_defs int32_t_wraps)
  have rest: "m_prior_gmm trainer_T = Some 1 \<and> update_weights trainer_T
   \<and> ss_T (m_ss trainer_T) = 2 ^ 31
   \<and> int32_t (ss_T (m_ss trainer_T)) = - (2 ^ 31)
   \<and> m_cache_alpha (fst (snd (mStep trainer_T 0 [] store_A))) = [Fin (1 / 2)]
   \<and> ss_n (m_ss trainer_T) ! 0 / Fin (real (ss_T (m_ss trainer_T))) = Fin 1
   \<and> (let a = m_cache_alpha (fst (snd (mStep trainer_T 0 [] store_A))) ! 0;
           b = a * (ss_n (m_ss trainer_T) ! 0 / Fin (real (ss_T (m_ss trainer_T))))
               + (1 - a) * weights (store_A 1) ! 0
       in b / sum_dbl [b]) = Fin 1
   \<and> weights (snd (snd (mStep trainer_T 0 [] store_A)) 0) = [NaN]
   \<and> sum_dbl (weights (snd (snd (mStep trainer_T 0 [] store_A)) 0)) = NaN
   \<and> sum_dbl (weights (snd (snd (mStep trainer_T 0 [] store_A)) 0)) \<noteq> 1"
    by (simp add: trainer_T_def example_defs mStep_run mStep_alpha_def int32_t_wraps Let_def)
  from ml rest show ?thesis
    by blast
qed

text \<open>
  C10. In data-dependent mode, with a relevance factor above zero, occupancies that are
  not negative, a count above zero and prior weights that are not negative and sum to 1,
  the divisor \<open>gamma\<close> of the weight update is meant to be above zero and the stored
  weights not negative. At the input of C3 all of this holds of the inputs, and the
  coefficient \<open>1/2\<close> lies in \<open>[0, 1)\<close>; but the count converted by \<open>(int32_t)\<close> is
  negative, the sum \<open>gamma\<close> of the blends that the code divides by is zero, and the
  weight stored is not a number.
\<close>

theorem mStep_gamma_wrapped_count:
  "\<not> m_T3_adaptation trainer_T \<and> update_weights trainer_T
   \<and> 0 < relevance_factor trainer_T
   \<and> 0 \<le> ss_n (m_ss trainer_T) ! 0
   \<and> 0 < ss_T (m_ss trainer_T)
   \<and> 0 \<le> weights (store_A 1) ! 0 \<and> sum_dbl (weights (store_A 1)) = 1
   \<and> 0 \<le> m_cache_alpha (fst (snd (mStep trainer_T 0 [] store_A))) ! 0
   \<and> m_cache_alpha (fst (snd (mStep trainer_T 0 [] store_A))) ! 0 < 1
   \<and> sum_dbl (map (\<lambda>i. m_cache_alpha (fst (snd (mStep trainer_T 0 [] store_A))) ! i
                          * (ss_n (m_ss trainer_T) ! i
                             / Fin (real_of_int (int32_t (ss_T (m_ss trainer_T)))))
                        + (1 - m_cache_alpha (fst (snd (mStep trainer_T 0 [] store_A))) ! i)
                          * weights (store_A 1) ! i) [0..<n_gaussians (store_A 0)]) = 0
   \<and> weights (snd (snd (mStep trainer_T 0 [] store_A)) 0) ! 0 = NaN
   \<and> \<not> 0 \<le> weights (snd (snd (mStep trainer_T 0 [] store_A)) 0) ! 0"
  by (simp add: trainer_T_def example_defs mStep_run int32_t_wraps)

text \<open>
  C7. \<open>initialization\<close> on a trainer that has no prior does not throw \<open>NoPriorGMM\<close>: it
  reads through the null pointer. \<open>mStep\<close> on the same trainer throws \<open>NoPriorGMM\<close>.
\<close>

theorem initialization_without_prior:
  "m_prior_gmm (new_MAP_GMMTrainer (Fin 16) True True True 0) = None
   \<and> fst (initialization (new_MAP_GMMTrainer (Fin 16) True True True 0) 0 [] store_A)
       = NullDereference
   \<and> fst (initialization (new_MAP_GMMTrainer (Fin 16) True True True 0) 0 [] store_A)
       \<noteq> NoPriorGMM
   \<and> fst (mStep (new_MAP_GMMTrainer (Fin 16) True True True 0) 0 [] store_A) = NoPriorGMM"
  by (simp add: initialization_def mStep_def new_MAP_GMMTrainer_def Let_def)

text \<open>
  C8. \<open>setPriorGMM\<close> returns false exactly on a null pointer, and then leaves the trainer
  as it was; on an address it returns true and stores it, and from then on no call of
  \<open>mStep\<close> throws \<open>NoPriorGMM\<close>: every call on a trainer that holds the address
  returns normally and leaves the address in place.
\<close>

theorem setPriorGMM_result:
  "(fst (setPriorGMM t prior_gmm) = False \<longleftrightarrow> prior_gmm = None)
   \<and> (prior_gmm = None \<longrightarrow> snd (setPriorGMM t prior_gmm) = t)
   \<and> (\<forall>p. prior_gmm = Some p \<longrightarrow>
         fst (setPriorGMM t prior_gmm) = True
         \<and> snd (setPriorGMM t prior_gmm) = t\<lparr>m_prior_gmm := Some p\<rparr>
         \<and> fst (mStep (snd (setPriorGMM t prior_gmm)) gmm data s) = Returned
         \<and> (\<forall>t2 gmm2 data2 s2. m_prior_gmm t2 = Some p \<longrightarrow>
               fst (mStep t2 gmm2 data2 s2) = Returned
               \<and> m_prior_gmm (fst (snd (mStep t2 gmm2 data2 s2))) = Some p))"
  by (cases prior_gmm) (simp_all add: setPriorGMM_def mStep_outcome mStep_keeps_prior)

theorem setPriorGMM_result_witness:
  "fst (setPriorGMM (new_MAP_GMMTrainer (Fin 16) True True True 0) None) = False
   \<and> snd (setPriorGMM (new_MAP_GMMTrainer (Fin 16) True True True 0) None)
       = new_MAP_GMMTrainer (Fin 16) True True True 0
   \<and> fst (setPriorGMM (new_MAP_GMMTrainer (Fin 16) True True True 0) (Some 1)) = True
   \<and> m_prior_gmm (snd (setPriorGMM (new_MAP_GMMTrainer (Fin 16) True True True 0) (Some 1))) = Some 1
   \<and> fst (mStep (snd (setPriorGMM (new_MAP_GMMTrainer (Fin 16) True True True 0) (Some 1)))
             0 [] store_A) = Returned
   \<and> m_prior_gmm trainer_A = Some 1
   \<and> fst (mStep trainer_A 0 [] store_A) = Returned
   \<and> m_prior_gmm (fst (snd (mStep trainer_A 0 [] store_A))) = Some 1"
  using setPriorGMM_result [of "new_MAP_GMMTrainer (Fin 16) True True True 0" None 0 "[]" store_A]
        setPriorGMM_result [of "new_MAP_GMMTrainer (Fin 16) True True True 0" "Some 1" 0 "[]" store_A]
  by (simp add: trainer_A_def new_MAP_GMMTrainer_def)


end
